theory Spec2Isabelle
  imports Complex_Main "HOL-Library.Multiset" "HOL-Library.Char_ord" "HOL-Library.List_Lexorder"
begin

section \<open>Numbers, errors and the fitted model\<close>

text \<open>
  The pipeline of \<^verbatim>\<open>life_exp_gdp_analysis.py\<close> computes on IEEE doubles. The embedding
  idealises a finite double as a \<^typ>\<open>real\<close> (no rounding, no overflow) and keeps the two
  non-finite results that \<^verbatim>\<open>np.log\<close> produces on a non-positive argument as values of
  their own: \<^verbatim>\<open>np.log(0.0)\<close> is \<^verbatim>\<open>-inf\<close> and \<^verbatim>\<open>np.log(x)\<close> for \<^verbatim>\<open>x < 0\<close> is \<^verbatim>\<open>nan\<close>; NumPy
  reports both by a \<^verbatim>\<open>RuntimeWarning\<close>, not by an exception. HOL's own \<open>ln\<close> is total
  (\<open>ln 0 = 0\<close>, \<open>ln (- x) = ln x\<close>), so it is only ever applied to a positive argument.
\<close>

datatype fval = Num real | NegInf | NaN

definition np_log :: "real \<Rightarrow> fval" where
  "np_log x = (if 0 < x then Num (ln x) else if x = 0 then NegInf else NaN)"

fun isfinite :: "fval \<Rightarrow> bool" where
  "isfinite (Num v) = True"
| "isfinite NegInf = False"
| "isfinite NaN = False"

fun the_num :: "fval \<Rightarrow> real" where
  "the_num (Num v) = v"
| "the_num NegInf = 0"
| "the_num NaN = 0"

text \<open>The Python exceptions that the modelled lines can raise.\<close>

datatype error = ValueError | KeyError | IndexError

text \<open>
  A fitted \<^verbatim>\<open>LinearRegression\<close> over the two feature columns \<^verbatim>\<open>gdp_log\<close> and
  \<^verbatim>\<open>year_index\<close>: \<^verbatim>\<open>intercept_\<close> and the two entries of \<^verbatim>\<open>coef_\<close>.
\<close>

record linear_model =
  intercept :: real
  coef_gdp_log :: real
  coef_year_index :: real

text \<open>
  \<^verbatim>\<open>model.predict(X)\<close> of scikit-learn validates \<^verbatim>\<open>X\<close> first: a table with no row, or
  with a NaN or an infinity in it, raises \<^verbatim>\<open>ValueError\<close>. Otherwise the prediction of
  each row is \<^verbatim>\<open>X @ coef_ + intercept_\<close>.
\<close>

definition predict_row :: "linear_model \<Rightarrow> fval \<times> int \<Rightarrow> real" where
  "predict_row model row =
     intercept model + coef_gdp_log model * the_num (fst row)
       + coef_year_index model * real_of_int (snd row)"

definition predict :: "linear_model \<Rightarrow> (fval \<times> int) list \<Rightarrow> error + real list" where
  "predict model X =
     (if X = [] \<or> (\<exists>row \<in> set X. \<not> isfinite (fst row)) then Inl ValueError
      else Inr (map (predict_row model) X))"

section \<open>The scenario simulator\<close>

text \<open>
  \<^verbatim>\<open>simulate_life_expectancy_change(gdp_current, year_index, delta_gdp_pct, model)\<close>:
  both one-row tables carry the same \<^verbatim>\<open>year_index\<close>; \<^verbatim>\<open>[0]\<close> reads the first prediction.
\<close>

definition first_pred :: "real list \<Rightarrow> error + real" where
  "first_pred ys = (case ys of [] \<Rightarrow> Inl IndexError | y # _ \<Rightarrow> Inr y)"

definition simulate_life_expectancy_change ::
  "real \<Rightarrow> int \<Rightarrow> real \<Rightarrow> linear_model \<Rightarrow> error + (real \<times> real \<times> real)" where
  "simulate_life_expectancy_change gdp_current year_index delta_gdp_pct model =
     (let gdp_new = gdp_current * (1 + delta_gdp_pct / 100);
          X_curr = [(np_log gdp_current, year_index)];
          X_new = [(np_log gdp_new, year_index)]
      in case predict model X_curr of
           Inl e \<Rightarrow> Inl e
         | Inr ps_curr \<Rightarrow>
             (case first_pred ps_curr of
                Inl e \<Rightarrow> Inl e
              | Inr y_curr \<Rightarrow>
                  (case predict model X_new of
                     Inl e \<Rightarrow> Inl e
                   | Inr ps_new \<Rightarrow>
                       (case first_pred ps_new of
                          Inl e \<Rightarrow> Inl e
                        | Inr y_new \<Rightarrow> Inr (y_curr, y_new, y_new - y_curr)))))"

text \<open>The model of the worked example: intercept 50, coefficients 2 and 0.1.\<close>

definition sample_model :: linear_model where
  "sample_model = \<lparr>intercept = 50, coef_gdp_log = 2, coef_year_index = 1 / 10\<rparr>"

text \<open>The outcome \<open>a + b * x + c * t\<close> of a model with coefficients \<open>a\<close>, \<open>b\<close>, \<open>c\<close>.\<close>

definition linear_outcome :: "linear_model \<Rightarrow> real \<Rightarrow> int \<Rightarrow> real" where
  "linear_outcome model x t =
     intercept model + coef_gdp_log model * x + coef_year_index model * real_of_int t"

section \<open>Tables and the store\<close>

text \<open>
  A \<^verbatim>\<open>DataFrame\<close> of the pipeline, column by column. \<^verbatim>\<open>load_data\<close> supplies the four raw
  columns; every other column is absent (\<open>None\<close>) until a stage assigns it. Raw numeric
  columns hold finite numbers. \<^verbatim>\<open>cluster_label\<close> holds \<open>None\<close> in a row where
  \<^verbatim>\<open>Series.map\<close> finds no entry of the dictionary (pandas stores NaN there).
\<close>

record frame =
  Country :: "string list"
  Year :: "int list"
  life_expectancy :: "real list"
  gdp :: "real list"
  gdp_log :: "fval list option"
  year_index :: "int list option"
  risk_tier :: "int list option"
  pred :: "real list option"
  residual :: "real list option"
  cluster :: "nat list option"
  cluster_label :: "string option list option"

text \<open>
  Python passes a table by reference. The store is the list of the tables allocated so
  far and a reference is an index into it; \<^verbatim>\<open>df.copy()\<close> allocates a new table with the
  same columns (a deep copy), and a column assignment \<^verbatim>\<open>df[c] = v\<close> updates the table the
  reference points to.
\<close>

type_synonym heap = "frame list"

definition df_copy :: "nat \<Rightarrow> heap \<Rightarrow> nat \<times> heap" where
  "df_copy df h = (length h, h @ [h ! df])"

section \<open>The feature engineer\<close>

text \<open>\<^verbatim>\<open>df["Year"].min()\<close>; on a table without rows the difference column is empty.\<close>

definition year_min :: "int list \<Rightarrow> int" where
  "year_min ys = (case ys of [] \<Rightarrow> 0 | y # rest \<Rightarrow> fold min rest y)"

text \<open>
  \<^verbatim>\<open>pd.qcut(x, 4, labels=[1, 2, 3, 4])\<close>. The five bin edges are the quantiles of \<^verbatim>\<open>x\<close> at
  0, 1/4, 1/2, 3/4 and 1 with linear interpolation: on the sorted values, the quantile
  at \<open>k/4\<close> sits at position \<open>(n - 1) * k / 4\<close>, between its two neighbours. Edges that are
  not pairwise distinct raise \<^verbatim>\<open>ValueError\<close> (\<^verbatim>\<open>duplicates='raise'\<close>), as does a column
  without values. A value gets the index that \<^verbatim>\<open>searchsorted(side='left')\<close> finds among the
  edges, the smallest edge itself gets index 1 (\<^verbatim>\<open>include_lowest\<close>), index \<open>i\<close> selects
  \<^verbatim>\<open>labels[i - 1]\<close>, and an index outside the bins is NaN, on which \<^verbatim>\<open>astype(int)\<close>
  raises \<^verbatim>\<open>ValueError\<close>.
\<close>

definition quantile :: "real list \<Rightarrow> nat \<Rightarrow> real" where
  "quantile xs k =
     (let s = sort xs; n = length s; i = ((n - 1) * k) div 4; r = ((n - 1) * k) mod 4
      in if r = 0 then s ! i else s ! i + (real r / 4) * (s ! (i + 1) - s ! i))"

definition searchsorted_left :: "real list \<Rightarrow> real \<Rightarrow> nat" where
  "searchsorted_left bins x = length (takeWhile (\<lambda>b. b < x) bins)"

definition bin_id :: "real list \<Rightarrow> real \<Rightarrow> nat" where
  "bin_id bins x = (if x = hd bins then 1 else searchsorted_left bins x)"

definition quartile_edges :: "real list \<Rightarrow> real list" where
  "quartile_edges xs = map (quantile xs) [0, 1, 2, 3, 4]"

definition qcut :: "real list \<Rightarrow> error + int list" where
  "qcut xs =
     (if xs = [] then Inl ValueError
      else
        let bins = quartile_edges xs
        in if \<not> distinct bins then Inl ValueError
           else
             let ids = map (bin_id bins) xs
             in if \<exists>i \<in> set ids. i = 0 \<or> i = length bins then Inl ValueError
                else Inr (map (\<lambda>i. [1, 2, 3, 4] ! (i - 1)) ids))"

text \<open>
  The body of \<^verbatim>\<open>engineer_features\<close> after the copy: three column assignments on the
  local table. The result is the outcome together with the local table as the body
  leaves it.
\<close>

definition engineer_body :: "frame \<Rightarrow> (error + unit) \<times> frame" where
  "engineer_body df =
     (let df1 = df\<lparr>gdp_log := Some (map np_log (gdp df))\<rparr>;
          df2 = df1\<lparr>year_index := Some (map (\<lambda>y. y - year_min (Year df1)) (Year df1))\<rparr>
      in case qcut (life_expectancy df2) of
           Inl e \<Rightarrow> (Inl e, df2)
         | Inr tiers \<Rightarrow> (Inr (), df2\<lparr>risk_tier := Some tiers\<rparr>))"

text \<open>
  \<^verbatim>\<open>engineer_features(df)\<close>: \<^verbatim>\<open>df = df.copy()\<close> rebinds the local name to a fresh table;
  the function returns the reference to it.
\<close>

definition engineer_features :: "nat \<Rightarrow> heap \<Rightarrow> (error + nat) \<times> heap" where
  "engineer_features df h =
     (case df_copy df h of
        (df', h1) \<Rightarrow>
          (case engineer_body (h1 ! df') of
             (res, f) \<Rightarrow> (case res of Inl e \<Rightarrow> Inl e | Inr _ \<Rightarrow> Inr df', h1[df' := f])))"

text \<open>
  Two raw tables of five and six observations. The first holds an economic level of 0 and
  a negative one; the second has five distinct outcome values, one of them twice.
\<close>

definition sample_table :: frame where
  "sample_table =
     \<lparr>Country = [''A'', ''B'', ''C'', ''D'', ''E''], Year = [2000, 2001, 2002, 2003, 2004],
      life_expectancy = [1, 2, 3, 4, 5], gdp = [0, - 1, 1, 1, 1],
      gdp_log = None, year_index = None, risk_tier = None, pred = None, residual = None,
      cluster = None, cluster_label = None\<rparr>"


section \<open>Regression diagnostics and the gap ranking\<close>

text \<open>
  \<^verbatim>\<open>df.groupby(key)[value].mean()\<close>: one entry per distinct key, in ascending key order
  (strings compare lexicographically), holding the arithmetic mean of that key's values.
\<close>

definition series_mean :: "real list \<Rightarrow> real" where
  "series_mean vs = sum_list vs / real (length vs)"

definition group_values :: "'k list \<Rightarrow> real list \<Rightarrow> 'k \<Rightarrow> real list" where
  "group_values ks vs k = map snd (filter (\<lambda>p. fst p = k) (zip ks vs))"

definition groupby_mean :: "('k::linorder) list \<Rightarrow> real list \<Rightarrow> ('k \<times> real) list" where
  "groupby_mean ks vs = map (\<lambda>k. (k, series_mean (group_values ks vs k))) (sort (remdups ks))"

text \<open>
  \<^verbatim>\<open>Series.sort_values()\<close> sorts ascending by value with \<^verbatim>\<open>kind='quicksort'\<close>, which NumPy
  does not promise to be stable: the order of entries with equal values is left to the
  sorting routine. The sort is therefore a parameter of the model, constrained only to
  return its input in ascending order of value. \<open>stable_sort_values\<close> is the instance
  that keeps equal values in their incoming order.
\<close>

definition value_sort :: "(('k \<times> real) list \<Rightarrow> ('k \<times> real) list) \<Rightarrow> bool" where
  "value_sort srt \<longleftrightarrow> (\<forall>xs. sorted (map snd (srt xs)) \<and> mset (srt xs) = mset xs)"

definition stable_sort_values :: "('k \<times> real) list \<Rightarrow> ('k \<times> real) list" where
  "stable_sort_values = sort_key snd"

text \<open>\<^verbatim>\<open>X = df[["gdp_log", "year_index"]]\<close>: a missing column raises \<^verbatim>\<open>KeyError\<close>.\<close>

definition X_of :: "frame \<Rightarrow> error + (fval \<times> int) list" where
  "X_of df =
     (case gdp_log df of
        None \<Rightarrow> Inl KeyError
      | Some gl \<Rightarrow> (case year_index df of None \<Rightarrow> Inl KeyError | Some yi \<Rightarrow> Inr (zip gl yi)))"

text \<open>
  Lines 126 to 134 of \<^verbatim>\<open>fit_outcome_regression\<close>, the gap ranking: the predictions and
  the residuals are assigned as columns of the table \<^verbatim>\<open>df\<close>, then the mean residual of
  each country is sorted and the first ten entries are kept (\<^verbatim>\<open>head(10)\<close>).
\<close>

definition gap_ranker ::
  "((string \<times> real) list \<Rightarrow> (string \<times> real) list) \<Rightarrow> linear_model \<Rightarrow> (fval \<times> int) list
     \<Rightarrow> frame \<Rightarrow> (error + (string \<times> real) list) \<times> frame" where
  "gap_ranker sort_values model X df =
     (case predict model X of
        Inl e \<Rightarrow> (Inl e, df)
      | Inr ps \<Rightarrow>
          (let df1 = df\<lparr>pred := Some ps\<rparr>;
               rs = map2 (-) (life_expectancy df1) ps;
               df2 = df1\<lparr>residual := Some rs\<rparr>;
               underperformers = take 10 (sort_values (groupby_mean (Country df2) rs))
           in (Inr underperformers, df2)))"

text \<open>
  \<^verbatim>\<open>fit_outcome_regression(df)\<close>. The split with \<^verbatim>\<open>random_state=42\<close> and the least-squares
  fit on the training part are scikit-learn's; \<open>fit\<close> stands for both and may raise. The
  function works on the caller's table (there is no copy). Its result is the fitted model;
  the printed table of underperformers is returned beside it.
\<close>

definition fit_outcome_regression ::
  "((fval \<times> int) list \<Rightarrow> real list \<Rightarrow> error + linear_model)
     \<Rightarrow> ((string \<times> real) list \<Rightarrow> (string \<times> real) list)
     \<Rightarrow> nat \<Rightarrow> heap \<Rightarrow> (error + linear_model \<times> (string \<times> real) list) \<times> heap" where
  "fit_outcome_regression fit sort_values df h =
     (case X_of (h ! df) of
        Inl e \<Rightarrow> (Inl e, h)
      | Inr X \<Rightarrow>
          (case fit X (life_expectancy (h ! df)) of
             Inl e \<Rightarrow> (Inl e, h)
           | Inr model \<Rightarrow>
               (case gap_ranker sort_values model X (h ! df) of
                  (res, f) \<Rightarrow>
                    (case res of Inl e \<Rightarrow> Inl e | Inr ups \<Rightarrow> Inr (model, ups), h[df := f]))))"

section \<open>The segmenter\<close>

text \<open>
  \<^verbatim>\<open>StandardScaler().fit_transform\<close> on one column: subtract the mean and divide by the
  population standard deviation, which is replaced by 1 when it is 0.
\<close>

definition standardize :: "real list \<Rightarrow> real list" where
  "standardize xs =
     (let m = series_mean xs;
          sd = sqrt (series_mean (map (\<lambda>x. (x - m)\<^sup>2) xs));
          scale = (if sd = 0 then 1 else sd)
      in map (\<lambda>x. (x - m) / scale) xs)"

definition risk_labels :: "string list" where
  "risk_labels = [''High Risk'', ''Elevated Risk'', ''Moderate Risk'', ''Low Risk'']"

text \<open>
  The body of \<^verbatim>\<open>cluster_populations\<close> after the copy. \<open>kmeans\<close> stands for
  \<^verbatim>\<open>KMeans(n_clusters=4, random_state=42, n_init=10).fit_predict\<close>, which returns one
  cluster id per row or raises. The scaler and the clustering reject a table without rows
  and a non-finite \<^verbatim>\<open>gdp_log\<close> with \<^verbatim>\<open>ValueError\<close>; assigning a column of the wrong length
  raises \<^verbatim>\<open>ValueError\<close> too. \<^verbatim>\<open>zip\<close> stops at the shorter of the sorted cluster ids and the
  four labels; the ids of \<open>profile\<close> are distinct, so the dictionary has one entry per id.
\<close>

definition cluster_body ::
  "((real \<times> real) list \<Rightarrow> error + nat list) \<Rightarrow> ((nat \<times> real) list \<Rightarrow> (nat \<times> real) list)
     \<Rightarrow> frame \<Rightarrow> (error + unit) \<times> frame" where
  "cluster_body kmeans sort_values df =
     (case gdp_log df of
        None \<Rightarrow> (Inl KeyError, df)
      | Some gl \<Rightarrow>
          if life_expectancy df = [] \<or> (\<exists>v \<in> set gl. \<not> isfinite v) then (Inl ValueError, df)
          else
            let scaled = zip (standardize (life_expectancy df)) (standardize (map the_num gl))
            in case kmeans scaled of
                 Inl e \<Rightarrow> (Inl e, df)
               | Inr cs \<Rightarrow>
                   if length cs \<noteq> length (life_expectancy df) then (Inl ValueError, df)
                   else
                     let df1 = df\<lparr>cluster := Some cs\<rparr>;
                         profile = sort_values (groupby_mean cs (life_expectancy df1));
                         label_map = zip (map fst profile) risk_labels;
                         df2 = df1\<lparr>cluster_label := Some (map (map_of label_map) cs)\<rparr>
                     in (Inr (), df2))"

definition cluster_populations ::
  "((real \<times> real) list \<Rightarrow> error + nat list) \<Rightarrow> ((nat \<times> real) list \<Rightarrow> (nat \<times> real) list)
     \<Rightarrow> nat \<Rightarrow> heap \<Rightarrow> (error + nat) \<times> heap" where
  "cluster_populations kmeans sort_values df h =
     (case df_copy df h of
        (df', h1) \<Rightarrow>
          (case cluster_body kmeans sort_values (h1 ! df') of
             (res, f) \<Rightarrow> (case res of Inl e \<Rightarrow> Inl e | Inr _ \<Rightarrow> Inr df', h1[df' := f])))"

section \<open>A worked pipeline run\<close>

text \<open>
  A raw table of five observations of three countries, the table that the feature
  engineer returns for it, and stand-ins for the two library calls: a fit that returns
  the model of the worked example and a clustering that returns the ids 3, 0, 2, 3, 0.
\<close>

definition raw_table :: frame where
  "raw_table =
     \<lparr>Country = [''B'', ''A'', ''C'', ''B'', ''A''], Year = [2000, 2000, 2000, 2010, 2010],
      life_expectancy = [60, 61, 55, 64, 63], gdp = [1, 1, 1, 1, 1],
      gdp_log = None, year_index = None, risk_tier = None, pred = None, residual = None,
      cluster = None, cluster_label = None\<rparr>"

definition engineered_table :: frame where
  "engineered_table =
     raw_table\<lparr>gdp_log := Some [Num 0, Num 0, Num 0, Num 0, Num 0],
               year_index := Some [0, 0, 0, 10, 10],
               risk_tier := Some [1, 2, 1, 4, 3]\<rparr>"

definition sample_X :: "(fval \<times> int) list" where
  "sample_X = [(Num 0, 0), (Num 0, 0), (Num 0, 0), (Num 0, 10), (Num 0, 10)]"

definition sample_fit :: "(fval \<times> int) list \<Rightarrow> real list \<Rightarrow> error + linear_model" where
  "sample_fit X y = Inr sample_model"

definition sample_kmeans :: "(real \<times> real) list \<Rightarrow> error + nat list" where
  "sample_kmeans scaled = Inr [3, 0, 2, 3, 0]"

section \<open>Bounds on the logarithms of the worked example\<close>

lemma exp_lower5:
  fixes x :: real
  assumes "0 \<le> x"
  shows "1 + x + x^2 / 2 + x^3 / 6 + x^4 / 24 + x^5 / 120 \<le> exp x"
proof -
  obtain t where t: "exp x = (\<Sum>m<6. x ^ m / fact m) + exp t / fact 6 * x ^ 6"
    using Maclaurin_exp_le[of x 6] by blast
  have "0 \<le> exp t / fact 6 * x ^ 6"
    using assms by simp
  moreover have "(\<Sum>m<6. x ^ m / fact m) = 1 + x + x^2 / 2 + x^3 / 6 + x^4 / 24 + x^5 / 120"
    by (simp add: lessThan_nat_numeral lessThan_Suc fact_numeral)
  ultimately show ?thesis
    using t by linarith
qed

lemma exp_upper5:
  fixes x :: real
  assumes "0 \<le> x" and "x \<le> 1"
  shows "exp x \<le> 1 + x + x^2 / 2 + x^3 / 6 + x^4 / 24 + x^5 / 120 + x^6 / 240"
proof -
  obtain t where t: "\<bar>t\<bar> \<le> \<bar>x\<bar>"
      "exp x = (\<Sum>m<6. x ^ m / fact m) + exp t / fact 6 * x ^ 6"
    using Maclaurin_exp_le[of x 6] by blast
  have "exp t \<le> exp 1"
    using t(1) assms by simp
  also have "\<dots> \<le> 3"
    using exp_le by simp
  finally have "exp t * x^6 \<le> 3 * x^6"
    using assms by (simp add: mult_right_mono)
  then have "exp t / fact 6 * x ^ 6 \<le> x^6 / 240"
    by (simp add: fact_numeral)
  moreover have "(\<Sum>m<6. x ^ m / fact m) = 1 + x + x^2 / 2 + x^3 / 6 + x^4 / 24 + x^5 / 120"
    by (simp add: lessThan_nat_numeral lessThan_Suc fact_numeral)
  ultimately show ?thesis
    using t(2) by linarith
qed

lemma le_ln_if: "0 < y \<Longrightarrow> exp x \<le> y \<Longrightarrow> x \<le> ln (y::real)"
  by (simp add: ln_ge_iff)

lemma ln_le_if: "0 < y \<Longrightarrow> y \<le> exp x \<Longrightarrow> ln (y::real) \<le> x"
  by (metis exp_le_cancel_iff exp_ln)

lemma ln10_lower: "(23025 / 10000 :: real) \<le> ln 10"
proof -
  have "exp (23025 / 100000 :: real) \<le> 125892 / 100000"
    using exp_upper5[of "23025 / 100000"] by (simp add: power_divide)
  then have "exp (23025 / 100000 :: real) ^ 10 \<le> (125892 / 100000) ^ 10"
    by (intro power_mono) simp_all
  also have "\<dots> \<le> (10::real)"
    by (simp add: power_divide)
  finally have "exp (10 * (23025 / 100000 :: real)) \<le> 10"
    by (simp only: exp_of_nat_mult[symmetric, of _ 10] of_nat_numeral)
  then have "exp (23025 / 10000 :: real) \<le> 10"
    by simp
  then show ?thesis
    by (intro le_ln_if) simp_all
qed

lemma ln10_upper: "ln 10 \<le> (230265 / 100000 :: real)"
proof -
  have "(125893 / 100000 :: real) \<le> exp (230265 / 1000000)"
    using exp_lower5[of "230265 / 1000000"] by (simp add: power_divide)
  then have "(125893 / 100000 :: real) ^ 10 \<le> exp (230265 / 1000000) ^ 10"
    by (intro power_mono) simp_all
  moreover have "(10::real) \<le> (125893 / 100000) ^ 10"
    by (simp add: power_divide)
  ultimately have "10 \<le> exp (10 * (230265 / 1000000 :: real))"
    by (simp only: exp_of_nat_mult[symmetric, of _ 10] of_nat_numeral)
  then have "10 \<le> exp (230265 / 100000 :: real)"
    by simp
  then show ?thesis
    by (intro ln_le_if) simp_all
qed

lemma ln11_bounds: "(953 / 10000 :: real) \<le> ln (11 / 10) \<and> ln (11 / 10) \<le> (9532 / 100000 :: real)"
proof
  have "exp (953 / 10000 :: real) \<le> 11 / 10"
    using exp_upper5[of "953 / 10000"] by (simp add: power_divide)
  then show "(953 / 10000 :: real) \<le> ln (11 / 10)"
    by (intro le_ln_if) simp_all
  have "(11 / 10 :: real) \<le> exp (9532 / 100000)"
    using exp_lower5[of "9532 / 100000"] by (simp add: power_divide)
  then show "ln (11 / 10) \<le> (9532 / 100000 :: real)"
    by (intro ln_le_if) simp_all
qed

lemma ln1000: "ln (1000::real) = 3 * ln 10"
  using ln_realpow[of 10 3] by simp

lemma ln1100: "ln (1100::real) = 3 * ln 10 + ln (11 / 10)"
proof -
  have "ln (1000 * (11 / 10) :: real) = ln 1000 + ln (11 / 10)"
    by (intro ln_mult_pos) simp_all
  then show ?thesis
    by (simp add: ln1000)
qed

section \<open>What the simulator returns\<close>

lemma predict_single:
  "predict model [(Num v, t)] =
     Inr [intercept model + coef_gdp_log model * v + coef_year_index model * real_of_int t]"
  by (simp add: predict_def predict_row_def)

lemma predict_single_nonfinite: "\<not> isfinite x \<Longrightarrow> predict model [(x, t)] = Inl ValueError"
  by (simp add: predict_def)

lemma simulate_ok:
  assumes "0 < g" and "- 100 < pct"
  shows "simulate_life_expectancy_change g t pct model =
     Inr (intercept model + coef_gdp_log model * ln g + coef_year_index model * real_of_int t,
          intercept model + coef_gdp_log model * ln (g * (1 + pct / 100))
            + coef_year_index model * real_of_int t,
          (intercept model + coef_gdp_log model * ln (g * (1 + pct / 100))
            + coef_year_index model * real_of_int t)
          - (intercept model + coef_gdp_log model * ln g
            + coef_year_index model * real_of_int t))"
proof -
  have "0 < 1 + pct / 100"
    using assms(2) by simp
  then have pos: "0 < g * (1 + pct / 100)"
    using assms(1) by simp
  show ?thesis
    using assms(1) pos
    by (simp add: simulate_life_expectancy_change_def Let_def np_log_def predict_single
        first_pred_def)
qed

lemma simulate_fails:
  assumes "0 < g" and "pct \<le> - 100"
  shows "simulate_life_expectancy_change g t pct model = Inl ValueError"
proof -
  have "1 + pct / 100 \<le> 0"
    using assms(2) by simp
  then have "g * (1 + pct / 100) \<le> 0"
    using assms(1) by (simp add: mult_le_0_iff)
  then have "\<not> isfinite (np_log (g * (1 + pct / 100)))"
    by (simp add: np_log_def)
  then show ?thesis
    using assms(1)
    by (simp add: simulate_life_expectancy_change_def Let_def np_log_def predict_single
        predict_single_nonfinite first_pred_def)
qed

lemma sample_values:
  "simulate_life_expectancy_change 1000 0 10 sample_model =
     Inr (50 + 6 * ln 10, 50 + 6 * ln 10 + 2 * ln (11 / 10), 2 * ln (11 / 10))"
proof -
  have "simulate_life_expectancy_change 1000 0 10 sample_model =
      Inr (50 + 2 * ln 1000, 50 + 2 * ln 1100, (50 + 2 * ln 1100) - (50 + 2 * ln 1000))"
    using simulate_ok[of 1000 10 0 sample_model] by (simp add: sample_model_def)
  then show ?thesis
    by (simp add: ln1000 ln1100)
qed


lemma sample_bounds:
  "\<bar>50 + 6 * ln 10 - 63816 / 1000\<bar> \<le> (1 / 1000 :: real)"
  "\<bar>50 + 6 * ln 10 + 2 * ln (11 / 10) - 64006 / 1000\<bar> \<le> (1 / 1000 :: real)"
  "\<bar>2 * ln (11 / 10) - 191 / 1000\<bar> \<le> (1 / 1000 :: real)"
  using ln10_lower ln10_upper ln11_bounds by linarith+

text \<open>
  Claim C1, as the code has it. For an economic level \<open>g > 0\<close>, a time index \<open>t\<close> and a
  percentage change \<open>pct > -100\<close>, the simulator returns the triple (baseline, perturbed,
  perturbed - baseline), where the baseline is \<open>a + b * ln g + c * t\<close> and the perturbed
  outcome is \<open>a + b * ln (g * (1 + pct / 100)) + c * t\<close> with the same \<open>t\<close>. With
  \<open>g = 1000\<close>, \<open>t = 0\<close>, \<open>pct = 10\<close>, \<open>a = 50\<close>, \<open>b = 2\<close>, \<open>c = 0.1\<close> the baseline is
  \<open>50 + 2 * ln 1000\<close>, within 0.001 of 63.816, the perturbed outcome is \<open>50 + 2 * ln 1100\<close>,
  within 0.001 of 64.006, and the difference is \<open>2 * ln 1.1\<close>, within 0.001 of 0.191.
\<close>

theorem C1_simulator_triple:
  assumes "0 < g" and "- 100 < pct"
  shows "simulate_life_expectancy_change g t pct model =
           Inr (linear_outcome model (ln g) t,
                linear_outcome model (ln (g * (1 + pct / 100))) t,
                linear_outcome model (ln (g * (1 + pct / 100))) t - linear_outcome model (ln g) t)
         \<and> simulate_life_expectancy_change 1000 0 10 sample_model =
             Inr (50 + 6 * ln 10, 50 + 6 * ln 10 + 2 * ln (11 / 10), 2 * ln (11 / 10))
         \<and> \<bar>50 + 6 * ln 10 - 63816 / 1000\<bar> \<le> (1 / 1000 :: real)
         \<and> \<bar>50 + 6 * ln 10 + 2 * ln (11 / 10) - 64006 / 1000\<bar> \<le> (1 / 1000 :: real)
         \<and> \<bar>2 * ln (11 / 10) - 191 / 1000\<bar> \<le> (1 / 1000 :: real)"
  using simulate_ok[OF assms, of t model] sample_values sample_bounds
  by (simp add: linear_outcome_def)

theorem C1_simulator_triple_witness:
  "(0::real) < 1000 \<and> (- 100 :: real) < 10
   \<and> simulate_life_expectancy_change 1000 0 10 sample_model =
       Inr (linear_outcome sample_model (ln 1000) 0,
            linear_outcome sample_model (ln (1000 * (1 + 10 / 100))) 0,
            linear_outcome sample_model (ln (1000 * (1 + 10 / 100))) 0
              - linear_outcome sample_model (ln 1000) 0)"
  using C1_simulator_triple[of 1000 10 0 sample_model] by simp

text \<open>
  The figures of the claim are not the ones the code computes: at the sample input the
  difference is \<open>2 * ln 1.1\<close>, above 0.19, not 0.098, and the perturbed outcome is above 64,
  not 63.913. And a change of \<open>-100\<close> percent returns no triple.
\<close>

theorem C1_sample_counterexample:
  "simulate_life_expectancy_change 1000 0 10 sample_model =
     Inr (50 + 6 * ln 10, 50 + 6 * ln 10 + 2 * ln (11 / 10), 2 * ln (11 / 10))
   \<and> \<not> \<bar>2 * ln (11 / 10) - 98 / 1000\<bar> \<le> (1 / 1000 :: real)
   \<and> \<not> \<bar>50 + 6 * ln 10 + 2 * ln (11 / 10) - 63913 / 1000\<bar> \<le> (1 / 1000 :: real)
   \<and> simulate_life_expectancy_change 1000 0 (- 100) sample_model = Inl ValueError"
proof -
  have "\<not> \<bar>2 * ln (11 / 10) - 98 / 1000\<bar> \<le> (1 / 1000 :: real)"
    using ln11_bounds by linarith
  moreover have "\<not> \<bar>50 + 6 * ln 10 + 2 * ln (11 / 10) - 63913 / 1000\<bar> \<le> (1 / 1000 :: real)"
    using ln11_bounds ln10_lower by linarith
  moreover have "simulate_life_expectancy_change 1000 0 (- 100) sample_model = Inl ValueError"
    by (rule simulate_fails) simp_all
  ultimately show ?thesis
    using sample_values by simp
qed

text \<open>
  Claim C2. For an economic level \<open>g > 0\<close> and any time index, a percentage change that
  makes the perturbed economic level non-positive, \<open>-100\<close> among them, makes the simulator
  raise: the logarithm of the perturbed level is not finite and the model's input
  validation rejects it with \<^verbatim>\<open>ValueError\<close>, the exception that stands for the
  specification's DomainError. A change of \<open>-99.9999\<close> percent returns a triple.
\<close>

theorem C2_simulator_boundary:
  assumes "0 < g"
  shows "(g * (1 + pct / 100) \<le> 0 \<longrightarrow>
            simulate_life_expectancy_change g t pct model = Inl ValueError)
         \<and> simulate_life_expectancy_change g t (- 100) model = Inl ValueError
         \<and> simulate_life_expectancy_change g t (- 999999 / 10000) model =
             Inr (linear_outcome model (ln g) t,
                  linear_outcome model (ln (g * (1 + (- 999999 / 10000) / 100))) t,
                  linear_outcome model (ln (g * (1 + (- 999999 / 10000) / 100))) t
                    - linear_outcome model (ln g) t)"
proof (intro conjI impI)
  assume np: "g * (1 + pct / 100) \<le> 0"
  have "pct \<le> - 100"
  proof (rule ccontr)
    assume "\<not> pct \<le> - 100"
    then have "0 < 1 + pct / 100" by simp
    then have "0 < g * (1 + pct / 100)" using assms by simp
    then show False using np by simp
  qed
  then show "simulate_life_expectancy_change g t pct model = Inl ValueError"
    using assms by (rule simulate_fails[rotated])
next
  show "simulate_life_expectancy_change g t (- 100) model = Inl ValueError"
    using assms by (rule simulate_fails) simp
next
  show "simulate_life_expectancy_change g t (- 999999 / 10000) model =
             Inr (linear_outcome model (ln g) t,
                  linear_outcome model (ln (g * (1 + (- 999999 / 10000) / 100))) t,
                  linear_outcome model (ln (g * (1 + (- 999999 / 10000) / 100))) t
                    - linear_outcome model (ln g) t)"
    using simulate_ok[OF assms, of "- 999999 / 10000" t model]
    by (simp add: linear_outcome_def)
qed

theorem C2_simulator_boundary_witness:
  "(0::real) < 1000 \<and> (1000::real) * (1 + (- 150) / 100) \<le> 0
   \<and> simulate_life_expectancy_change 1000 0 (- 150) sample_model = Inl ValueError
   \<and> simulate_life_expectancy_change 1000 0 (- 100) sample_model = Inl ValueError"
  using C2_simulator_boundary[of 1000 "- 150" 0 sample_model] by simp

section \<open>What the feature engineer computes\<close>

lemma engineer_features_unfold:
  "engineer_features df h =
     (case engineer_body (h ! df) of
        (res, f) \<Rightarrow> (case res of Inl e \<Rightarrow> Inl e | Inr _ \<Rightarrow> Inr (length h), h @ [f]))"
  by (simp add: engineer_features_def df_copy_def split: prod.splits)

lemma engineer_body_unfold:
  "engineer_body f =
     (case qcut (life_expectancy f) of
        Inl e \<Rightarrow> (Inl e, f\<lparr>gdp_log := Some (map np_log (gdp f)),
                          year_index := Some (map (\<lambda>y. y - year_min (Year f)) (Year f))\<rparr>)
      | Inr tiers \<Rightarrow> (Inr (), f\<lparr>gdp_log := Some (map np_log (gdp f)),
                          year_index := Some (map (\<lambda>y. y - year_min (Year f)) (Year f)),
                          risk_tier := Some tiers\<rparr>))"
  by (simp add: engineer_body_def Let_def split: sum.splits)

lemma engineer_features_Inr:
  assumes "engineer_features df h = (Inr d, h')"
  obtains tiers where "qcut (life_expectancy (h ! df)) = Inr tiers" and "d = length h"
    and "h' = h @ [(h ! df)\<lparr>gdp_log := Some (map np_log (gdp (h ! df))),
                   year_index := Some (map (\<lambda>y. y - year_min (Year (h ! df))) (Year (h ! df))),
                   risk_tier := Some tiers\<rparr>]"
  using assms
  by (auto simp: engineer_features_unfold engineer_body_unfold split: sum.splits)

lemma engineer_features_fst:
  "fst (engineer_features df h) =
     (case qcut (life_expectancy (h ! df)) of Inl e \<Rightarrow> Inl e | Inr tiers \<Rightarrow> Inr (length h))"
  by (simp add: engineer_features_unfold engineer_body_unfold split: sum.splits)

lemma engineer_features_heap: "\<exists>f. snd (engineer_features df h) = h @ [f]"
  by (simp add: engineer_features_unfold split: prod.splits)

lemma qcut_sample: "qcut [1, 2, 3, 4, 5] = Inr [1, 1, 2, 3, 4]"
  by (simp add: qcut_def quartile_edges_def quantile_def bin_id_def searchsorted_left_def)


lemma qcut_duplicate_edges: "qcut [0, 0, 1, 2, 3] = Inl ValueError"
  by (simp add: qcut_def quartile_edges_def quantile_def)

lemma engineer_sample:
  "engineer_features 0 [sample_table] =
     (Inr 1, [sample_table,
              sample_table\<lparr>gdp_log := Some [NegInf, NaN, Num 0, Num 0, Num 0],
                           year_index := Some [0, 1, 2, 3, 4],
                           risk_tier := Some [1, 1, 2, 3, 4]\<rparr>])"
  by (simp add: engineer_features_unfold engineer_body_unfold qcut_sample sample_table_def
      np_log_def year_min_def)


subsection \<open>The quartile edges and the bin of a value\<close>













section \<open>Claims about the feature engineer\<close>

text \<open>
  Claim C3, as the code has it. The feature engineer performs no check of the economic
  level. Whether it raises is decided by the outcome column alone (\<^verbatim>\<open>ValueError\<close> of the
  quartile cut); when it returns, \<^verbatim>\<open>gdp_log\<close> holds for every row the value of \<^verbatim>\<open>np.log\<close>
  on that row's economic level: \<open>ln g\<close> for a level \<open>g > 0\<close>, \<^verbatim>\<open>-inf\<close> for the level 0
  and NaN for a negative level.
\<close>

theorem C3_engineer_log:
  assumes "df < length h"
  shows "fst (engineer_features df h) =
           (case qcut (life_expectancy (h ! df)) of
              Inl e \<Rightarrow> Inl e
            | Inr tiers \<Rightarrow> Inr (length h))
         \<and> (\<forall>d h'. engineer_features df h = (Inr d, h') \<longrightarrow>
               (\<exists>gl. gdp_log (h' ! d) = Some gl \<and> length gl = length (gdp (h ! df))
                  \<and> (\<forall>i < length gl.
                        gl ! i = (if 0 < gdp (h ! df) ! i then Num (ln (gdp (h ! df) ! i))
                                  else if gdp (h ! df) ! i = 0 then NegInf else NaN))))"
proof (intro conjI allI impI)
  show "fst (engineer_features df h) =
           (case qcut (life_expectancy (h ! df)) of
              Inl e \<Rightarrow> Inl e
            | Inr tiers \<Rightarrow> Inr (length h))"
    by (rule engineer_features_fst)
next
  fix d h'
  assume "engineer_features df h = (Inr d, h')"
  then obtain tiers where "d = length h"
    and "h' = h @ [(h ! df)\<lparr>gdp_log := Some (map np_log (gdp (h ! df))),
                   year_index := Some (map (\<lambda>y. y - year_min (Year (h ! df))) (Year (h ! df))),
                   risk_tier := Some tiers\<rparr>]"
    by (rule engineer_features_Inr)
  then have "gdp_log (h' ! d) = Some (map np_log (gdp (h ! df)))"
    by simp
  then show "\<exists>gl. gdp_log (h' ! d) = Some gl \<and> length gl = length (gdp (h ! df))
                  \<and> (\<forall>i < length gl.
                        gl ! i = (if 0 < gdp (h ! df) ! i then Num (ln (gdp (h ! df) ! i))
                                  else if gdp (h ! df) ! i = 0 then NegInf else NaN))"
    by (simp add: np_log_def)
qed

theorem C3_engineer_log_witness:
  "(0::nat) < length [sample_table]
   \<and> engineer_features 0 [sample_table] =
       (Inr 1, [sample_table,
                sample_table\<lparr>gdp_log := Some [NegInf, NaN, Num 0, Num 0, Num 0],
                             year_index := Some [0, 1, 2, 3, 4],
                             risk_tier := Some [1, 1, 2, 3, 4]\<rparr>])
   \<and> fst (engineer_features 0 [sample_table]) = Inr (length [sample_table])"
  using C3_engineer_log[of 0 "[sample_table]"] engineer_sample
  by (simp add: sample_table_def qcut_sample)

text \<open>
  On a table whose economic levels include 0 and \<open>-1\<close> the feature engineer raises
  nothing: it returns a table whose \<^verbatim>\<open>gdp_log\<close> holds \<^verbatim>\<open>-inf\<close> and NaN in those rows.
\<close>

theorem C3_nonpositive_counterexample:
  "gdp sample_table = [0, - 1, 1, 1, 1]
   \<and> engineer_features 0 [sample_table] =
       (Inr 1, [sample_table,
                sample_table\<lparr>gdp_log := Some [NegInf, NaN, Num 0, Num 0, Num 0],
                             year_index := Some [0, 1, 2, 3, 4],
                             risk_tier := Some [1, 1, 2, 3, 4]\<rparr>])"
  using engineer_sample by (simp add: sample_table_def)




text \<open>
  Claim C9. Running the feature engineer on the table it returned succeeds again and
  returns a new table equal to that first result: the raw columns are untouched by the
  first run, so \<^verbatim>\<open>gdp_log\<close>, \<^verbatim>\<open>year_index\<close> and \<^verbatim>\<open>risk_tier\<close> are recomputed to the same values.
\<close>

theorem C9_engineer_idempotent:
  assumes "df < length h" and "engineer_features df h = (Inr d, h1)"
  shows "engineer_features d h1 = (Inr (length h1), h1 @ [h1 ! d])
         \<and> gdp_log ((h1 @ [h1 ! d]) ! length h1) = gdp_log (h1 ! d)
         \<and> year_index ((h1 @ [h1 ! d]) ! length h1) = year_index (h1 ! d)
         \<and> risk_tier ((h1 @ [h1 ! d]) ! length h1) = risk_tier (h1 ! d)"
proof -
  from assms(2) obtain tiers where q: "qcut (life_expectancy (h ! df)) = Inr tiers"
    and d: "d = length h"
    and h1: "h1 = h @ [(h ! df)\<lparr>gdp_log := Some (map np_log (gdp (h ! df))),
                   year_index := Some (map (\<lambda>y. y - year_min (Year (h ! df))) (Year (h ! df))),
                   risk_tier := Some tiers\<rparr>]"
    by (rule engineer_features_Inr)
  have "engineer_features d h1 = (Inr (length h1), h1 @ [h1 ! d])"
    by (simp add: engineer_features_unfold engineer_body_unfold d h1 q)
  then show ?thesis
    by simp
qed

theorem C9_engineer_idempotent_witness:
  "(0::nat) < length [sample_table]
   \<and> engineer_features 0 [sample_table] =
       (Inr 1, [sample_table,
                sample_table\<lparr>gdp_log := Some [NegInf, NaN, Num 0, Num 0, Num 0],
                             year_index := Some [0, 1, 2, 3, 4],
                             risk_tier := Some [1, 1, 2, 3, 4]\<rparr>])
   \<and> engineer_features 1 [sample_table,
                sample_table\<lparr>gdp_log := Some [NegInf, NaN, Num 0, Num 0, Num 0],
                             year_index := Some [0, 1, 2, 3, 4],
                             risk_tier := Some [1, 1, 2, 3, 4]\<rparr>] =
       (Inr 2, [sample_table,
                sample_table\<lparr>gdp_log := Some [NegInf, NaN, Num 0, Num 0, Num 0],
                             year_index := Some [0, 1, 2, 3, 4],
                             risk_tier := Some [1, 1, 2, 3, 4]\<rparr>,
                sample_table\<lparr>gdp_log := Some [NegInf, NaN, Num 0, Num 0, Num 0],
                             year_index := Some [0, 1, 2, 3, 4],
                             risk_tier := Some [1, 1, 2, 3, 4]\<rparr>])"
  using C9_engineer_idempotent[of 0 "[sample_table]" 1, OF _ engineer_sample] engineer_sample
  by simp


section \<open>The worked run, evaluated\<close>

lemma engineer_raw:
  "engineer_features 0 [raw_table] = (Inr 1, [raw_table, engineered_table])"
  by (simp add: engineer_features_unfold engineer_body_unfold raw_table_def engineered_table_def
      np_log_def year_min_def qcut_def quartile_edges_def quantile_def bin_id_def
      searchsorted_left_def)

lemma X_of_engineered: "X_of engineered_table = Inr sample_X"
  by (simp add: X_of_def engineered_table_def sample_X_def)

lemma predict_sample: "predict sample_model sample_X = Inr [50, 50, 50, 51, 51]"
  by (simp add: predict_def predict_row_def sample_X_def sample_model_def)

lemma groupby_sample:
  "groupby_mean [''B'', ''A'', ''C'', ''B'', ''A''] [10, 11, 5, 13, 12]
     = [(''A'', 23 / 2), (''B'', 23 / 2), (''C'', 5)]"
  by (simp add: groupby_mean_def group_values_def series_mean_def)

lemma stable_sample:
  "stable_sort_values [(''A'', 23 / 2 :: real), (''B'', 23 / 2), (''C'', 5)]
     = [(''C'', 5), (''A'', 23 / 2), (''B'', 23 / 2)]"
  by (simp add: stable_sort_values_def)

lemma gap_ranker_sample:
  "gap_ranker stable_sort_values sample_model sample_X engineered_table =
     (Inr [(''C'', 5), (''A'', 23 / 2), (''B'', 23 / 2)],
      engineered_table\<lparr>pred := Some [50, 50, 50, 51, 51], residual := Some [10, 11, 5, 13, 12]\<rparr>)"
  by (simp add: gap_ranker_def predict_sample Let_def engineered_table_def raw_table_def
      groupby_sample stable_sample)

lemma fit_sample:
  "fit_outcome_regression sample_fit stable_sort_values 0 [engineered_table] =
     (Inr (sample_model, [(''C'', 5), (''A'', 23 / 2), (''B'', 23 / 2)]),
      [engineered_table\<lparr>pred := Some [50, 50, 50, 51, 51],
                        residual := Some [10, 11, 5, 13, 12]\<rparr>])"
  by (simp add: fit_outcome_regression_def X_of_engineered sample_fit_def gap_ranker_sample)


section \<open>Grouped means and value sorts\<close>

lemma groupby_keys: "map fst (groupby_mean ks vs) = sort (remdups ks)"
  by (simp add: groupby_mean_def comp_def)

lemma groupby_mem:
  "(k, m) \<in> set (groupby_mean ks vs) \<longleftrightarrow> k \<in> set ks \<and> m = series_mean (group_values ks vs k)"
  by (auto simp: groupby_mean_def)

lemma groupby_distinct: "distinct (map fst (groupby_mean ks vs))"
  by (simp add: groupby_keys)

lemma groupby_length: "length (groupby_mean ks vs) = card (set ks)"
  by (simp add: groupby_mean_def length_remdups_card_conv)

lemma groupby_strict_keys: "sorted_wrt (<) (map fst (groupby_mean ks vs))"
  by (simp add: groupby_keys strict_sorted_iff)

lemma value_sort_sorted: "value_sort srt \<Longrightarrow> sorted (map snd (srt xs))"
  by (simp add: value_sort_def)

lemma value_sort_mset: "value_sort srt \<Longrightarrow> mset (srt xs) = mset xs"
  by (simp add: value_sort_def)

lemma value_sort_set: "value_sort srt \<Longrightarrow> set (srt xs) = set xs"
  using value_sort_mset[of srt xs] by (metis set_mset_mset)

lemma value_sort_length: "value_sort srt \<Longrightarrow> length (srt xs) = length xs"
  using value_sort_mset[of srt xs] by (metis size_mset)

lemma value_sort_distinct:
  assumes "value_sort srt" and "distinct (map fst xs)"
  shows "distinct (map fst (srt xs))"
proof -
  have "mset (map fst (srt xs)) = mset (map fst xs)"
    using value_sort_mset[OF assms(1), of xs] by (metis mset_map)
  then show ?thesis
    using assms(2) by (metis mset_eq_imp_distinct_iff)
qed

lemma sorted_take_le_drop:
  assumes "sorted (map snd p)" and "a \<in> set (take n p)" and "b \<in> set (drop n p)"
  shows "snd a \<le> snd b"
proof -
  have "sorted (map snd (take n p) @ map snd (drop n p))"
    using assms(1) by (metis append_take_drop_id map_append)
  then show ?thesis
    using assms(2,3) by (auto simp: sorted_append)
qed

lemma stable_ties_ordered:
  fixes gm :: "('k::linorder \<times> real) list"
  assumes keys: "sorted_wrt (<) (map fst gm)"
    and ij: "i < j" "j < length (stable_sort_values gm)"
    and tie: "snd (stable_sort_values gm ! i) = snd (stable_sort_values gm ! j)"
  shows "fst (stable_sort_values gm ! i) < fst (stable_sort_values gm ! j)"
proof -
  let ?p = "stable_sort_values gm"
  let ?v = "snd (?p ! i)"
  let ?P = "\<lambda>y. snd y = ?v"
  have i: "i < length ?p"
    using ij by simp
  have st: "filter ?P ?p = filter ?P gm"
    unfolding stable_sort_values_def by (rule sort_key_stable)
  have "sorted_wrt (\<lambda>a b. fst a < fst b) gm"
    using keys by (simp add: sorted_wrt_map)
  then have "sorted_wrt (\<lambda>a b. fst a < fst b) (filter ?P gm)"
    by (rule sorted_wrt_filter)
  then have sf: "sorted_wrt (\<lambda>a b. fst a < fst b) (filter ?P ?p)"
    by (simp only: st)
  have split: "?p = take i ?p @ ?p ! i # drop (Suc i) ?p"
    using i by (rule id_take_nth_drop)
  have "filter ?P ?p = filter ?P (take i ?p) @ ?p ! i # filter ?P (drop (Suc i) ?p)"
    by (subst split) simp
  with sf have after: "\<forall>y \<in> set (filter ?P (drop (Suc i) ?p)). fst (?p ! i) < fst y"
    by (simp add: sorted_wrt_append)
  have "?p ! j \<in> set (drop (Suc i) ?p)"
  proof -
    have "drop (Suc i) ?p ! (j - Suc i) = ?p ! j"
      using ij by simp
    moreover have "j - Suc i < length (drop (Suc i) ?p)"
      using ij by simp
    ultimately show ?thesis
      by (metis nth_mem)
  qed
  then have "?p ! j \<in> set (filter ?P (drop (Suc i) ?p))"
    using tie by simp
  then show ?thesis
    using after by blast
qed

section \<open>What the gap ranking returns\<close>

lemma gap_ranker_ok:
  assumes "X \<noteq> []" and "\<forall>row \<in> set X. isfinite (fst row)"
  shows "gap_ranker srt model X df =
     (Inr (take 10 (srt (groupby_mean (Country df)
             (map2 (-) (life_expectancy df) (map (predict_row model) X))))),
      df\<lparr>pred := Some (map (predict_row model) X),
         residual := Some (map2 (-) (life_expectancy df) (map (predict_row model) X))\<rparr>)"
  using assms by (simp add: gap_ranker_def predict_def Let_def)

text \<open>
  What the gap ranking returns for every ascending sort of the means. On a table whose
  features are finite it assigns to every row the residual outcome minus prediction,
  takes for every country the arithmetic mean of its residuals and returns the countries
  with the smallest means in ascending order of the mean, at most ten of them. For the
  stable sort, countries with equal means follow the lexicographic order of their
  identifiers; for the sort that \<^verbatim>\<open>sort_values()\<close> runs, the order of equal means is not
  determined here.
\<close>

lemma gap_ranking_properties:
  assumes "value_sort srt" and "X \<noteq> []" and "\<forall>row \<in> set X. isfinite (fst row)"
    and "length (Country df) = length X" and "length (life_expectancy df) = length X"
  shows "\<exists>ups rs df'. gap_ranker srt model X df = (Inr ups, df') \<and> residual df' = Some rs
           \<and> length rs = length X
           \<and> (\<forall>i < length X. rs ! i = life_expectancy df ! i - predict_row model (X ! i))
           \<and> length ups = min 10 (card (set (Country df)))
           \<and> sorted (map snd ups) \<and> distinct (map fst ups)
           \<and> (\<forall>e \<in> set ups. fst e \<in> set (Country df)
                  \<and> snd e = sum_list (group_values (Country df) rs (fst e))
                              / real (length (group_values (Country df) rs (fst e))))
           \<and> (\<forall>k \<in> set (Country df) - fst ` set ups. \<forall>e \<in> set ups.
                  snd e \<le> series_mean (group_values (Country df) rs k))
           \<and> (srt = stable_sort_values \<longrightarrow>
                 (\<forall>i j. i < j \<and> j < length ups \<and> snd (ups ! i) = snd (ups ! j)
                    \<longrightarrow> fst (ups ! i) < fst (ups ! j)))"
proof -
  define rs where "rs = map2 (-) (life_expectancy df) (map (predict_row model) X)"
  define gm where "gm = groupby_mean (Country df) rs"
  define p where "p = srt gm"
  define ups where "ups = take 10 p"
  define df' where "df' = df\<lparr>pred := Some (map (predict_row model) X), residual := Some rs\<rparr>"
  have run: "gap_ranker srt model X df = (Inr ups, df')"
    using gap_ranker_ok[OF assms(2,3)] by (simp add: ups_def p_def gm_def rs_def df'_def)
  have res: "residual df' = Some rs"
    by (simp add: df'_def)
  have len: "length rs = length X"
    using assms(5) by (simp add: rs_def)
  have row: "\<forall>i < length X. rs ! i = life_expectancy df ! i - predict_row model (X ! i)"
    using assms(5) by (simp add: rs_def)
  have "length p = card (set (Country df))"
    using value_sort_length[OF assms(1)] by (simp add: p_def gm_def groupby_length)
  then have n: "length ups = min 10 (card (set (Country df)))"
    by (simp add: ups_def min.commute)
  have sp: "sorted (map snd p)"
    using value_sort_sorted[OF assms(1)] by (simp add: p_def)
  then have srt_ups: "sorted (map snd ups)"
    by (simp add: ups_def take_map[symmetric] sorted_wrt_take)
  have "distinct (map fst p)"
    unfolding p_def gm_def using assms(1) groupby_distinct by (rule value_sort_distinct)
  then have dist: "distinct (map fst ups)"
    by (simp add: ups_def take_map[symmetric])
  have setp: "set p = set gm"
    using value_sort_set[OF assms(1)] by (simp add: p_def)
  have mem: "fst e \<in> set (Country df) \<and> snd e = series_mean (group_values (Country df) rs (fst e))"
    if "e \<in> set p" for e
  proof -
    have "(fst e, snd e) \<in> set (groupby_mean (Country df) rs)"
      using that setp by (simp add: gm_def)
    then show ?thesis
      by (simp only: groupby_mem)
  qed
  have means: "\<forall>e \<in> set ups. fst e \<in> set (Country df)
      \<and> snd e = sum_list (group_values (Country df) rs (fst e))
                  / real (length (group_values (Country df) rs (fst e)))"
  proof
    fix e assume "e \<in> set ups"
    then have "e \<in> set p"
      unfolding ups_def by (rule in_set_takeD)
    from mem[OF this] show "fst e \<in> set (Country df)
      \<and> snd e = sum_list (group_values (Country df) rs (fst e))
                  / real (length (group_values (Country df) rs (fst e)))"
      by (simp add: series_mean_def)
  qed
  have least: "\<forall>k \<in> set (Country df) - fst ` set ups. \<forall>e \<in> set ups.
      snd e \<le> series_mean (group_values (Country df) rs k)"
  proof (intro ballI)
    fix k e
    assume k: "k \<in> set (Country df) - fst ` set ups" and e: "e \<in> set ups"
    let ?m = "series_mean (group_values (Country df) rs k)"
    have "(k, ?m) \<in> set p"
      using k setp by (simp add: gm_def groupby_mem)
    then have "(k, ?m) \<in> set (take 10 p) \<union> set (drop 10 p)"
      by (metis append_take_drop_id set_append)
    moreover have "(k, ?m) \<notin> set (take 10 p)"
      using k by (force simp: ups_def)
    ultimately have "(k, ?m) \<in> set (drop 10 p)"
      by simp
    with sp e have "snd e \<le> snd (k, ?m)"
      unfolding ups_def by (intro sorted_take_le_drop[of p e 10])
    then show "snd e \<le> ?m"
      by simp
  qed
  have ties: "fst (ups ! i) < fst (ups ! j)"
    if "srt = stable_sort_values" "i < j" "j < length ups" "snd (ups ! i) = snd (ups ! j)" for i j
  proof -
    have j: "j < length p" "j < 10"
      using that(3) by (simp_all add: ups_def)
    have eq: "ups ! i = p ! i" "ups ! j = p ! j"
      using that(2) j by (simp_all add: ups_def)
    have "fst (stable_sort_values gm ! i) < fst (stable_sort_values gm ! j)"
      using groupby_strict_keys[of "Country df" rs] that(2) j(1) that(4)
      unfolding eq p_def that(1) gm_def by (intro stable_ties_ordered)
    then show ?thesis
      by (simp add: eq p_def that(1))
  qed
  have t: "srt = stable_sort_values \<longrightarrow>
      (\<forall>i j. i < j \<and> j < length ups \<and> snd (ups ! i) = snd (ups ! j)
         \<longrightarrow> fst (ups ! i) < fst (ups ! j))"
    using ties by blast
  show ?thesis
    by (intro exI[of _ ups] exI[of _ rs] exI[of _ df'] conjI)
      (rule run res len row n srt_ups dist means least t)+
qed

section \<open>What the segmenter returns\<close>

lemma cluster_populations_unfold:
  "cluster_populations kmeans srt df h =
     (case cluster_body kmeans srt (h ! df) of
        (res, f) \<Rightarrow> (case res of Inl e \<Rightarrow> Inl e | Inr _ \<Rightarrow> Inr (length h), h @ [f]))"
  by (simp add: cluster_populations_def df_copy_def split: prod.splits)

lemma cluster_populations_heap: "\<exists>f. snd (cluster_populations kmeans srt df h) = h @ [f]"
  by (simp add: cluster_populations_unfold split: prod.splits)

lemma cluster_body_Inr:
  assumes "cluster_body kmeans srt f = (Inr u, f')"
  obtains cs where "length cs = length (life_expectancy f)" and "life_expectancy f \<noteq> []"
    and "f' = f\<lparr>cluster := Some cs,
                cluster_label := Some (map (map_of (zip (map fst
                    (srt (groupby_mean cs (life_expectancy f)))) risk_labels)) cs)\<rparr>"
proof -
  from assms obtain gl where gl: "gdp_log f = Some gl"
    by (cases "gdp_log f") (simp_all add: cluster_body_def)
  have ok: "\<not> (life_expectancy f = [] \<or> (\<exists>v \<in> set gl. \<not> isfinite v))"
  proof
    assume "life_expectancy f = [] \<or> (\<exists>v \<in> set gl. \<not> isfinite v)"
    then have "cluster_body kmeans srt f = (Inl ValueError, f)"
      using gl by (simp add: cluster_body_def)
    with assms show False
      by simp
  qed
  define scaled where
    "scaled = zip (standardize (life_expectancy f)) (standardize (map the_num gl))"
  have step: "cluster_body kmeans srt f =
      (case kmeans scaled of
         Inl e \<Rightarrow> (Inl e, f)
       | Inr cs \<Rightarrow>
           if length cs \<noteq> length (life_expectancy f) then (Inl ValueError, f)
           else (Inr (), f\<lparr>cluster := Some cs,
                cluster_label := Some (map (map_of (zip (map fst
                    (srt (groupby_mean cs (life_expectancy f)))) risk_labels)) cs)\<rparr>))"
    using gl ok by (simp add: cluster_body_def Let_def scaled_def split: sum.splits)
  from assms obtain cs where cs: "kmeans scaled = Inr cs"
    unfolding step by (cases "kmeans scaled") simp_all
  have len: "length cs = length (life_expectancy f)"
    using assms unfolding step cs by (simp split: if_splits)
  have "f' = f\<lparr>cluster := Some cs,
                cluster_label := Some (map (map_of (zip (map fst
                    (srt (groupby_mean cs (life_expectancy f)))) risk_labels)) cs)\<rparr>"
    using assms len unfolding step cs by simp
  then show ?thesis
    using that len ok by simp
qed

lemma cluster_populations_Inr:
  assumes "cluster_populations kmeans srt df h = (Inr d, h')"
  obtains cs where "length cs = length (life_expectancy (h ! df))"
    and "life_expectancy (h ! df) \<noteq> []" and "d = length h"
    and "h' = h @ [(h ! df)\<lparr>cluster := Some cs,
                cluster_label := Some (map (map_of (zip (map fst
                    (srt (groupby_mean cs (life_expectancy (h ! df))))) risk_labels)) cs)\<rparr>]"
proof -
  obtain res f where b: "cluster_body kmeans srt (h ! df) = (res, f)"
    by (cases "cluster_body kmeans srt (h ! df)")
  from assms have "(case res of Inl e \<Rightarrow> Inl e | Inr _ \<Rightarrow> Inr (length h), h @ [f]) = (Inr d, h')"
    by (simp add: cluster_populations_unfold b)
  then obtain u where u: "res = Inr u" and d: "d = length h" and h': "h' = h @ [f]"
    by (cases res) simp_all
  from b u have "cluster_body kmeans srt (h ! df) = (Inr u, f)"
    by simp
  then obtain cs where len: "length cs = length (life_expectancy (h ! df))"
    and ne: "life_expectancy (h ! df) \<noteq> []"
    and f: "f = (h ! df)\<lparr>cluster := Some cs,
                cluster_label := Some (map (map_of (zip (map fst
                    (srt (groupby_mean cs (life_expectancy (h ! df))))) risk_labels)) cs)\<rparr>"
    by (rule cluster_body_Inr)
  show thesis
  proof (rule that[of cs])
    show "length cs = length (life_expectancy (h ! df))"
      by (rule len)
    show "life_expectancy (h ! df) \<noteq> []"
      by (rule ne)
    show "d = length h"
      by (rule d)
    show "h' = h @ [(h ! df)\<lparr>cluster := Some cs,
                cluster_label := Some (map (map_of (zip (map fst
                    (srt (groupby_mean cs (life_expectancy (h ! df))))) risk_labels)) cs)\<rparr>]"
      unfolding h' f by (rule refl)
  qed
qed







lemma cluster_sample:
  "cluster_populations sample_kmeans stable_sort_values 0 [engineered_table] =
     (Inr 1, [engineered_table,
              engineered_table\<lparr>cluster := Some [3, 0, 2, 3, 0],
                cluster_label := Some [Some ''Moderate Risk'', Some ''Elevated Risk'',
                  Some ''High Risk'', Some ''Moderate Risk'', Some ''Elevated Risk'']\<rparr>])"
proof -
  have gm: "groupby_mean [3, 0, 2, 3, 0 :: nat] [60, 61, 55, 64, 63] = [(0, 62), (2, 55), (3, 62)]"
    by (simp add: groupby_mean_def group_values_def series_mean_def)
  have st: "stable_sort_values [(0 :: nat, 62 :: real), (2, 55), (3, 62)] = [(2, 55), (0, 62), (3, 62)]"
    by (simp add: stable_sort_values_def)
  have "cluster_body sample_kmeans stable_sort_values engineered_table =
      (Inr (), engineered_table\<lparr>cluster := Some [3, 0, 2, 3, 0],
                cluster_label := Some [Some ''Moderate Risk'', Some ''Elevated Risk'',
                  Some ''High Risk'', Some ''Moderate Risk'', Some ''Elevated Risk'']\<rparr>)"
    by (simp add: cluster_body_def sample_kmeans_def Let_def engineered_table_def raw_table_def
        gm st risk_labels_def)
  then show ?thesis
    by (simp add: cluster_populations_unfold)
qed


section \<open>Which tables a stage changes\<close>

lemma fit_changes_caller:
  assumes "df < length h" and "fit_outcome_regression fit srt df h = (Inr r, h')"
  shows "length h' = length h \<and> pred (h' ! df) \<noteq> None \<and> residual (h' ! df) \<noteq> None"
proof -
  from assms(2) obtain X where X: "X_of (h ! df) = Inr X"
    by (cases "X_of (h ! df)") (simp_all add: fit_outcome_regression_def)
  from assms(2) obtain model where m: "fit X (life_expectancy (h ! df)) = Inr model"
    by (cases "fit X (life_expectancy (h ! df))") (simp_all add: fit_outcome_regression_def X)
  obtain res f where g: "gap_ranker srt model X (h ! df) = (res, f)"
    by (cases "gap_ranker srt model X (h ! df)")
  from assms(2) have eq: "(case res of Inl e \<Rightarrow> Inl e | Inr ups \<Rightarrow> Inr (model, ups), h[df := f]) = (Inr r, h')"
    by (simp add: fit_outcome_regression_def X m g)
  then obtain ups where res: "res = Inr ups" and h': "h' = h[df := f]"
    by (cases res) simp_all
  obtain ps where ps: "predict model X = Inr ps"
    using g res by (cases "predict model X") (simp_all add: gap_ranker_def)
  have "pred f \<noteq> None \<and> residual f \<noteq> None"
    using g by (auto simp: gap_ranker_def ps Let_def)
  then show ?thesis
    using assms(1) by (simp add: h')
qed

text \<open>
  Claim C10. The feature engineer and the segmenter work on a copy: whatever they
  return or raise, every table that existed before the call is unchanged afterwards, the
  caller's table among them, so none of the columns \<^verbatim>\<open>gdp_log\<close>, \<^verbatim>\<open>year_index\<close>,
  \<^verbatim>\<open>risk_tier\<close>, \<^verbatim>\<open>cluster\<close> and \<^verbatim>\<open>cluster_label\<close> appears on it; the table they return is
  a new one.
\<close>

theorem C10_copy_leaves_input:
  assumes "df < length h"
  shows "take (length h) (snd (engineer_features df h)) = h
         \<and> snd (engineer_features df h) ! df = h ! df
         \<and> (\<forall>d h'. engineer_features df h = (Inr d, h') \<longrightarrow> d = length h)
         \<and> take (length h) (snd (cluster_populations kmeans srt df h)) = h
         \<and> snd (cluster_populations kmeans srt df h) ! df = h ! df
         \<and> (\<forall>d h'. cluster_populations kmeans srt df h = (Inr d, h') \<longrightarrow> d = length h)"
proof -
  obtain f where f: "snd (engineer_features df h) = h @ [f]"
    using engineer_features_heap by blast
  obtain g where g: "snd (cluster_populations kmeans srt df h) = h @ [g]"
    using cluster_populations_heap by blast
  have e1: "take (length h) (snd (engineer_features df h)) = h"
    by (simp add: f)
  have e2: "snd (engineer_features df h) ! df = h ! df"
    using assms by (simp add: f nth_append)
  have e3: "\<forall>d h'. engineer_features df h = (Inr d, h') \<longrightarrow> d = length h"
  proof (intro allI impI)
    fix d h'
    assume "engineer_features df h = (Inr d, h')"
    then show "d = length h"
      by (rule engineer_features_Inr)
  qed
  have c1: "take (length h) (snd (cluster_populations kmeans srt df h)) = h"
    by (simp add: g)
  have c2: "snd (cluster_populations kmeans srt df h) ! df = h ! df"
    using assms by (simp add: g nth_append)
  have c3: "\<forall>d h'. cluster_populations kmeans srt df h = (Inr d, h') \<longrightarrow> d = length h"
  proof (intro allI impI)
    fix d h'
    assume "cluster_populations kmeans srt df h = (Inr d, h')"
    then show "d = length h"
      by (rule cluster_populations_Inr)
  qed
  show ?thesis
    by (intro conjI) (rule e1 e2 e3 c1 c2 c3)+
qed

theorem C10_copy_leaves_input_witness:
  "(0::nat) < length [engineered_table]
   \<and> cluster_populations sample_kmeans stable_sort_values 0 [engineered_table] =
       (Inr 1, [engineered_table,
                engineered_table\<lparr>cluster := Some [3, 0, 2, 3, 0],
                  cluster_label := Some [Some ''Moderate Risk'', Some ''Elevated Risk'',
                    Some ''High Risk'', Some ''Moderate Risk'', Some ''Elevated Risk'']\<rparr>])
   \<and> snd (cluster_populations sample_kmeans stable_sort_values 0 [engineered_table]) ! 0
       = engineered_table
   \<and> cluster engineered_table = None \<and> cluster_label engineered_table = None
   \<and> snd (engineer_features 0 [engineered_table]) ! 0 = engineered_table"
  using C10_copy_leaves_input[of 0 "[engineered_table]" sample_kmeans stable_sort_values]
    cluster_sample
  by (simp add: engineered_table_def raw_table_def)

text \<open>
  Claim C6 against the code. \<^verbatim>\<open>fit_outcome_regression\<close> makes no copy: on the worked
  table, which has neither a \<^verbatim>\<open>pred\<close> nor a \<^verbatim>\<open>residual\<close> column, the call leaves the
  caller's table with both columns assigned.
\<close>

theorem C6_ranking_changes_input:
  "pred engineered_table = None \<and> residual engineered_table = None
   \<and> fit_outcome_regression sample_fit stable_sort_values 0 [engineered_table] =
       (Inr (sample_model, [(''C'', 5), (''A'', 23 / 2), (''B'', 23 / 2)]),
        [engineered_table\<lparr>pred := Some [50, 50, 50, 51, 51],
                          residual := Some [10, 11, 5, 13, 12]\<rparr>])
   \<and> pred (snd (fit_outcome_regression sample_fit stable_sort_values 0 [engineered_table]) ! 0)
       = Some [50, 50, 50, 51, 51]
   \<and> residual (snd (fit_outcome_regression sample_fit stable_sort_values 0 [engineered_table]) ! 0)
       = Some [10, 11, 5, 13, 12]"
  using fit_sample by (simp add: engineered_table_def raw_table_def)


end
